theory Spec2Isabelle
  imports Complex_Main "HOL-Library.Char_ord" "HOL-Library.List_Lexorder"
begin

section \<open>JavaScript values used by the components\<close>

text \<open>
  A JavaScript number as far as the components need it: \<open>NaN\<close>, the two infinities and
  the finite values. A finite value is kept as the exact real it denotes; rounding to
  binary64 is not part of the embedding (it keeps the sign of every value that is not
  rounded to zero, and every short decimal used below is far from the underflow range).
\<close>

datatype jsnum = NaN | Num real | PosInfinity | NegInfinity

text \<open>\<open>x >= 0\<close> of JavaScript: false for \<open>NaN\<close>.\<close>

fun jsGe0 :: "jsnum \<Rightarrow> bool" where
  "jsGe0 NaN = False"
| "jsGe0 (Num r) = (0 \<le> r)"
| "jsGe0 PosInfinity = True"
| "jsGe0 NegInfinity = False"

text \<open>\<open>a + b\<close> on numbers.\<close>

fun jsAdd :: "jsnum \<Rightarrow> jsnum \<Rightarrow> jsnum" where
  "jsAdd NaN _ = NaN"
| "jsAdd _ NaN = NaN"
| "jsAdd (Num a) (Num b) = Num (a + b)"
| "jsAdd (Num a) PosInfinity = PosInfinity"
| "jsAdd (Num a) NegInfinity = NegInfinity"
| "jsAdd PosInfinity (Num b) = PosInfinity"
| "jsAdd NegInfinity (Num b) = NegInfinity"
| "jsAdd PosInfinity PosInfinity = PosInfinity"
| "jsAdd NegInfinity NegInfinity = NegInfinity"
| "jsAdd PosInfinity NegInfinity = NaN"
| "jsAdd NegInfinity PosInfinity = NaN"

text \<open>
  White space and line terminators of ECMAScript among the code units below 256
  (a \<open>char\<close> is one such code unit): TAB, LF, VT, FF, CR, SP and NBSP.
\<close>

definition isWhiteSpace :: "char \<Rightarrow> bool" where
  "isWhiteSpace c = (let n = (of_char c :: nat) in
     n = 9 \<or> n = 10 \<or> n = 11 \<or> n = 12 \<or> n = 13 \<or> n = 32 \<or> n = 160)"

definition isDigit :: "char \<Rightarrow> bool" where
  "isDigit c = (let n = (of_char c :: nat) in 48 \<le> n \<and> n \<le> 57)"

definition digitVal :: "char \<Rightarrow> nat" where
  "digitVal c = (of_char c :: nat) - 48"

text \<open>The value of a string of decimal digits, most significant first.\<close>

definition digitsValue :: "string \<Rightarrow> nat" where
  "digitsValue ds = foldl (\<lambda>acc c. 10 * acc + digitVal c) 0 ds"

text \<open>\<open>String.prototype.trim\<close>: white space removed at both ends.\<close>

definition trim :: "string \<Rightarrow> string" where
  "trim s = rev (dropWhile isWhiteSpace (rev (dropWhile isWhiteSpace s)))"

text \<open>
  An optional sign in front of a literal: whether it is a minus, and the rest.
\<close>

fun splitSign :: "string \<Rightarrow> bool \<times> string" where
  "splitSign [] = (False, [])"
| "splitSign (c # r) =
     (if c = CHR ''-'' then (True, r)
      else if c = CHR ''+'' then (False, r)
      else (False, c # r))"

text \<open>
  The \<open>ExponentPart\<close> of a \<open>StrDecimalLiteral\<close>, when the rest of the string starts with
  one: \<open>e\<close> or \<open>E\<close>, an optional sign and at least one digit. Otherwise the exponent
  is 0 (the longest prefix that is a literal ends before the \<open>e\<close>).
\<close>

definition exponentPart :: "string \<Rightarrow> int" where
  "exponentPart r =
     (case r of
        [] \<Rightarrow> 0
      | c # r' \<Rightarrow>
          if c = CHR ''e'' \<or> c = CHR ''E'' then
            (let (neg, ds) = splitSign r'; digs = takeWhile isDigit ds
             in if digs = [] then 0
                else if neg then - int (digitsValue digs) else int (digitsValue digs))
          else 0)"

definition scale10 :: "real \<Rightarrow> int \<Rightarrow> real" where
  "scale10 m k = (if 0 \<le> k then m * 10 ^ nat k else m / 10 ^ nat (- k))"

text \<open>
  \<open>parseFloat(string)\<close> of ECMAScript: leading white space is skipped, the longest prefix
  that is a \<open>StrDecimalLiteral\<close> is read (sign, \<open>Infinity\<close>, or digits with an optional
  fraction and exponent), and \<open>NaN\<close> is returned when there is none.
\<close>

definition parseFloat :: "string \<Rightarrow> jsnum" where
  "parseFloat s =
     (let (neg, u) = splitSign (dropWhile isWhiteSpace s) in
      if take 8 u = ''Infinity'' then (if neg then NegInfinity else PosInfinity)
      else
        let ip = takeWhile isDigit u;
            r1 = dropWhile isDigit u;
            (fp, r2) = (case r1 of
                          [] \<Rightarrow> ([], r1)
                        | c # r \<Rightarrow> if c = CHR ''.''
                                   then (takeWhile isDigit r, dropWhile isDigit r)
                                   else ([], r1))
        in if ip = [] \<and> fp = [] then NaN
           else
             let m = real (digitsValue (ip @ fp));
                 v = scale10 m (exponentPart r2 - int (length fp))
             in Num (if neg then - v else v))"


section \<open>The expense log component (DailyLog.tsx)\<close>

subsection \<open>Data\<close>

text \<open>
  \<open>interface Expense\<close> and \<open>interface BudgetCategory\<close>. The object \<open>newExpense\<close> that
  \<open>handleAddExpense\<close> builds has the fields of an \<open>Expense\<close> but no \<open>id\<close>.
\<close>

record NewExpense =
  ne_date :: string
  ne_category :: string
  ne_amount :: jsnum
  ne_note :: string

record Expense =
  exp_id :: string
  exp_date :: string
  exp_category :: string
  exp_amount :: jsnum
  exp_note :: string

record BudgetCategory =
  cat_id :: string
  cat_name :: string
  plannedAmount :: jsnum

text \<open>\<open>{ id: i, ...newExpense }\<close>\<close>

definition withId :: "string \<Rightarrow> NewExpense \<Rightarrow> Expense" where
  "withId i e = \<lparr>exp_id = i, exp_date = ne_date e, exp_category = ne_category e,
                 exp_amount = ne_amount e, exp_note = ne_note e\<rparr>"

text \<open>The argument of \<open>toast\<close>.\<close>

record Toast =
  title :: string
  description :: "string option"
  variant :: "string option"

text \<open>An awaited promise either resolves with a value or rejects.\<close>

datatype 'a Promise = Resolved 'a | Rejected

text \<open>
  What the component imports and the repository does not show: the three functions of
  \<open>@/utils/periodManager\<close> it calls and the translation function \<open>t\<close> of
  \<open>useTranslation\<close> (a key and its interpolation values). They are parameters of the
  model.
\<close>

record Services =
  getExpenses :: "string \<Rightarrow> Expense list Promise"
  addExpense :: "string \<Rightarrow> NewExpense \<Rightarrow> unit Promise"
  getCategories :: "string \<Rightarrow> BudgetCategory list Promise"
  t_fn :: "string \<Rightarrow> (string \<times> string) list \<Rightarrow> string"

text \<open>\<open>user?.uid\<close> of \<open>useAuth\<close> (\<open>None\<close> is \<open>undefined\<close>) and \<open>currency\<close> of \<open>useCurrency\<close>.\<close>

record Env =
  uid :: "string option"
  currency :: string

text \<open>The \<open>useState\<close> cells of the component.\<close>

record DailyLogState =
  expenses :: "Expense list"
  categories :: "BudgetCategory list"
  selectedCategory :: string
  amount :: string
  note_st :: string
  date :: string
  loading :: bool
  error :: "string option"

text \<open>The initial values of the cells; \<open>today\<close> is \<open>new Date().toISOString().split('T')[0]\<close>.\<close>

definition initialState :: "string \<Rightarrow> DailyLogState" where
  "initialState today =
     \<lparr>expenses = [], categories = [], selectedCategory = [], amount = [], note_st = [],
      date = today, loading = True, error = None\<rparr>"

text \<open>
  What a handler does besides leaving a new state, in the order it does it: calls of
  the store, the settling of the awaited promise (\<open>True\<close> when it resolved), calls of
  the state setters and toasts.
\<close>

datatype Effect =
    AddExpenseCalled string NewExpense
  | AddExpenseSettled bool
  | GetExpensesCalled string
  | GetExpensesSettled bool
  | SetExpenses "Expense list"
  | SetSelectedCategory string
  | SetAmount string
  | SetNote string
  | ToastShown Toast

text \<open>\<open>!uid\<close>: true for \<open>undefined\<close> and for the empty string.\<close>

definition uidMissing :: "Env \<Rightarrow> bool" where
  "uidMissing env = (case uid env of None \<Rightarrow> True | Some u \<Rightarrow> u = [])"

definition errorToast :: "Services \<Rightarrow> string \<Rightarrow> Toast" where
  "errorToast svc key =
     \<lparr>title = t_fn svc key [], description = None, variant = Some ''destructive''\<rparr>"

subsection \<open>handleAddExpense\<close>

text \<open>
  \<open>newExpense\<close>: the selected date and category, \<open>parseFloat(amount)\<close> and the trimmed
  note.
\<close>

definition newExpenseOf :: "DailyLogState \<Rightarrow> NewExpense" where
  "newExpenseOf st =
     \<lparr>ne_date = date st, ne_category = selectedCategory st,
      ne_amount = parseFloat (amount st), ne_note = trim (note_st st)\<rparr>"

text \<open>
  The toast after a logged expense; \<open>amount\<close> and \<open>selectedCategory\<close> are the values
  the handler closed over, not the cleared ones.
\<close>

definition loggedToast :: "Services \<Rightarrow> Env \<Rightarrow> DailyLogState \<Rightarrow> Toast" where
  "loggedToast svc env st =
     \<lparr>title = t_fn svc ''dailyLog.expense_logged'' [],
      description = Some (t_fn svc ''dailyLog.spent_on''
        [(''currency'', currency env), (''amount'', amount st),
         (''selectedCategory'', selectedCategory st)]),
      variant = None\<rparr>"

text \<open>
  The handler, line by line: the check of the two form fields, the check of the user,
  \<open>newExpense\<close>, and the \<open>try\<close> block, whose two awaited calls each may reject and
  lead to the \<open>catch\<close>. The setters called before a rejection have taken effect.
\<close>

definition handleAddExpense ::
  "Services \<Rightarrow> Env \<Rightarrow> DailyLogState \<Rightarrow> DailyLogState \<times> Effect list" where
  "handleAddExpense svc env st =
     (if selectedCategory st = [] \<or> amount st = [] then
        (st, [ToastShown (errorToast svc ''dailyLog.select_category_and_amount'')])
      else if uidMissing env then (st, [])
      else
        let u = the (uid env);
            newExpense = newExpenseOf st
        in case addExpense svc u newExpense of
             Rejected \<Rightarrow>
               (st, [AddExpenseCalled u newExpense, AddExpenseSettled False,
                     ToastShown (errorToast svc ''dailyLog.failed_to_add_expense'')])
           | Resolved _ \<Rightarrow>
               let optimistic = withId ''pending'' newExpense # expenses st;
                   st1 = st\<lparr>expenses := optimistic, selectedCategory := [],
                           amount := [], note_st := []\<rparr>;
                   done1 = [AddExpenseCalled u newExpense, AddExpenseSettled True,
                            SetExpenses optimistic, SetSelectedCategory [], SetAmount [],
                            SetNote [], ToastShown (loggedToast svc env st),
                            GetExpensesCalled u]
               in (case getExpenses svc u of
                     Rejected \<Rightarrow>
                       (st1, done1 @ [GetExpensesSettled False,
                          ToastShown (errorToast svc ''dailyLog.failed_to_add_expense'')])
                   | Resolved updated \<Rightarrow>
                       (st1\<lparr>expenses := updated\<rparr>,
                        done1 @ [GetExpensesSettled True, SetExpenses updated])))"

subsection \<open>Loading and rendering\<close>

text \<open>
  The effect that loads the data: nothing without a user; otherwise \<open>loading\<close> is set and
  \<open>error\<close> cleared, and \<open>Promise.all\<close> of the two reads either resolves (both lists are
  stored) or rejects (the translated message is stored); \<open>loading\<close> is reset in both.
\<close>

definition loadData :: "Services \<Rightarrow> Env \<Rightarrow> DailyLogState \<Rightarrow> DailyLogState" where
  "loadData svc env st =
     (if uidMissing env then st
      else
        let u = the (uid env);
            st0 = st\<lparr>loading := True, error := None\<rparr>
        in case (getExpenses svc u, getCategories svc u) of
             (Resolved es, Resolved cs) \<Rightarrow>
               st0\<lparr>expenses := es, categories := cs, loading := False\<rparr>
           | _ \<Rightarrow>
               st0\<lparr>error := Some (t_fn svc ''dailyLog.failed_to_load_data'' []),
                   loading := False\<rparr>)"

text \<open>
  What the component returns: the loading line, the error line, or the form and the
  summary of the selected day (the categories offered, the expenses of the day and
  their total).
\<close>

datatype View =
    LoadingView string
  | ErrorView string
  | LogView "string list" "Expense list" jsnum

definition todaysExpenses :: "DailyLogState \<Rightarrow> Expense list" where
  "todaysExpenses st = filter (\<lambda>e. exp_date e = date st) (expenses st)"

definition todaysTotal :: "DailyLogState \<Rightarrow> jsnum" where
  "todaysTotal st = foldl (\<lambda>s e. jsAdd s (exp_amount e)) (Num 0) (todaysExpenses st)"

text \<open>\<open>if (error)\<close> is false for \<open>null\<close> and for the empty string.\<close>

definition render :: "Services \<Rightarrow> DailyLogState \<Rightarrow> View" where
  "render svc st =
     (if loading st then LoadingView (t_fn svc ''loading'' [])
      else if error st \<noteq> None \<and> the (error st) \<noteq> [] then ErrorView (the (error st))
      else LogView (map cat_name (categories st)) (todaysExpenses st) (todaysTotal st))"


section \<open>The rollover prompt (NewPeriodPrompt)\<close>

text \<open>
  The two operations the prompt calls. They live in \<open>@/utils/periodManager\<close>, which is
  not among the sources; how a call of one behaves is a parameter of the model:
  \<open>Synchronous\<close>, the call returns when the operation has completed, or
  \<open>Asynchronous\<close>, the call starts the operation and returns a pending promise, which
  settles in a later turn of the event loop, after the running handler has returned.
\<close>

datatype Operation = ArchiveCurrentPeriod | MarkPeriodAsChecked

datatype Timing = Synchronous | Asynchronous

datatype PromptEvent =
    Started Operation
  | Completed Operation
  | PromptToast Toast
  | OnClose

text \<open>
  A call that is not awaited: the events it causes before it returns, and the
  operations it leaves pending.
\<close>

definition callOperation :: "Timing \<Rightarrow> Operation \<Rightarrow> PromptEvent list \<times> Operation list" where
  "callOperation tm op =
     (case tm of
        Synchronous \<Rightarrow> ([Started op, Completed op], [])
      | Asynchronous \<Rightarrow> ([Started op], [op]))"

text \<open>The title ends with the party popper emoji (U+1F389), here as its UTF-8 bytes.\<close>

definition newPeriodToast :: Toast where
  "newPeriodToast =
     \<lparr>title = ''New period started! '' @ [CHR 0xF0, CHR 0x9F, CHR 0x8E, CHR 0x89],
      description = Some (''Previous expenses have been archived and your budget is '' @
                          ''ready for the new month.''),
      variant = None\<rparr>"

text \<open>
  The two click handlers: the operation is called and its result dropped, then (for the
  archive) the toast, then \<open>onClose()\<close>.
\<close>

definition handleArchiveAndStart :: "Timing \<Rightarrow> PromptEvent list \<times> Operation list" where
  "handleArchiveAndStart tm =
     (let (ev, pending) = callOperation tm ArchiveCurrentPeriod
      in (ev @ [PromptToast newPeriodToast, OnClose], pending))"

definition handleContinue :: "Timing \<Rightarrow> PromptEvent list \<times> Operation list" where
  "handleContinue tm =
     (let (ev, pending) = callOperation tm MarkPeriodAsChecked
      in (ev @ [OnClose], pending))"

text \<open>
  A click runs the handler to its end; what it left pending completes afterwards.
\<close>

definition click :: "PromptEvent list \<times> Operation list \<Rightarrow> PromptEvent list" where
  "click r = fst r @ map Completed (snd r)"

text \<open>\<open>precedes a b xs\<close>: \<open>b\<close> occurs in \<open>xs\<close> after the first \<open>a\<close>.\<close>

definition precedes :: "'a \<Rightarrow> 'a \<Rightarrow> 'a list \<Rightarrow> bool" where
  "precedes a b xs = (b \<in> set (dropWhile (\<lambda>x. x \<noteq> a) xs))"


section \<open>The period engine\<close>

text \<open>
  The prompt and the log import the engine from \<open>@/utils/periodManager\<close> and
  \<open>@/utils/monthlyPeriod\<close>; neither file is among the sources. Every definition of this
  section is therefore written from the specification, and says so.
\<close>

subsection \<open>Instants and periods\<close>

text \<open>
  Modelled from the spec: the type of instants of the missing \<open>monthlyPeriod\<close>, which
  section 4.1 reads in local time (``local midnight'', ``day-of-month''). An instant is
  kept as its local calendar fields and the milliseconds since local midnight.
\<close>

record Instant =
  year :: int
  month :: nat
  day :: nat
  msOfDay :: nat

text \<open>
  Modelled from the spec: the order of the instants of the missing \<open>monthlyPeriod\<close>
  (``totally ordered by start'', \<open>start < end\<close>).
\<close>

definition instantLess :: "Instant \<Rightarrow> Instant \<Rightarrow> bool" where
  "instantLess a b =
     (year a < year b \<or> (year a = year b \<and>
       (month a < month b \<or> (month a = month b \<and>
         (day a < day b \<or> (day a = day b \<and> msOfDay a < msOfDay b))))))"

text \<open>
  Modelled from the spec: \<open>Period\<close> of section 3, whose declaration is in the missing
  \<open>monthlyPeriod\<close>: \<open>{ id: string, start: instant, end: instant (exclusive) }\<close>.
\<close>

record Period =
  id_of :: string
  start_of :: Instant
  end_of :: Instant

text \<open>
  Modelled from the spec: the digits of the identifiers of the missing \<open>monthlyPeriod\<close>,
  which the scenarios write in decimal (\<open>"2024-06"\<close>): a natural number as \<open>String(n)\<close>
  writes it.
\<close>

fun showNat :: "nat \<Rightarrow> string" where
  "showNat n =
     (if n < 10 then [char_of (48 + n)]
      else showNat (n div 10) @ [char_of (48 + n mod 10)])"

declare showNat.simps [simp del]

text \<open>
  Modelled from the spec: the identifier that the missing \<open>monthlyPeriod\<close> gives a
  period, ``canonical key, e.g. year-month under configured start-day'', written as in
  the scenarios (\<open>"2024-06"\<close>): the year and the two-digit month of the period's start.
\<close>

definition periodKey :: "int \<times> nat \<Rightarrow> string" where
  "periodKey ym =
     (if fst ym < 0 then ''-'' @ showNat (nat (- fst ym)) else showNat (nat (fst ym)))
     @ ''-'' @
     (if snd ym < 10 then ''0'' @ showNat (snd ym) else showNat (snd ym))"

text \<open>
  Modelled from the spec: ``nextMonth'' of section 4.1 (the missing \<open>monthlyPeriod\<close>):
  the calendar month after a year and month.
\<close>

definition nextMonth :: "int \<times> nat \<Rightarrow> int \<times> nat" where
  "nextMonth ym = (if snd ym = 12 then (fst ym + 1, 1) else (fst ym, snd ym + 1))"

text \<open>
  Modelled from the spec: ``prevMonth'' of section 4.1 (the missing \<open>monthlyPeriod\<close>):
  the calendar month before a year and month.
\<close>

definition prevMonth :: "int \<times> nat \<Rightarrow> int \<times> nat" where
  "prevMonth ym = (if snd ym = 1 then (fst ym - 1, 12) else (fst ym, snd ym - 1))"

text \<open>
  Modelled from the spec: the period boundary of section 4.1 (the missing
  \<open>monthlyPeriod\<close>): ``\<open>startDay\<close> of that calendar month at local midnight''.
\<close>

definition boundary :: "int \<times> nat \<Rightarrow> nat \<Rightarrow> Instant" where
  "boundary ym s = \<lparr>year = fst ym, month = snd ym, day = s, msOfDay = 0\<rparr>"

text \<open>
  Modelled from the spec: \<open>computePeriod(now, startDay)\<close> of section 4.1, which is in the
  missing \<open>monthlyPeriod\<close>. ``If \<open>now\<close>'s day-of-month is \<open>\<ge> startDay\<close>, the period is
  \<open>[thisMonth.startDay, nextMonth.startDay)\<close>; otherwise
  \<open>[prevMonth.startDay, thisMonth.startDay)\<close>''; ``\<open>startDay\<close> is clamped to \<open>\<le> 28\<close>''.
\<close>

definition computePeriod :: "Instant \<Rightarrow> nat \<Rightarrow> Period" where
  "computePeriod now startDay =
     (let s = min startDay 28;
          this = (year now, month now)
      in if s \<le> day now
         then \<lparr>id_of = periodKey this,
               start_of = boundary this s, end_of = boundary (nextMonth this) s\<rparr>
         else \<lparr>id_of = periodKey (prevMonth this),
               start_of = boundary (prevMonth this) s, end_of = boundary this s\<rparr>)"

text \<open>
  Modelled from the spec: ``the period immediately preceding \<open>currentPeriod\<close>'' of
  section 4.3 (the missing \<open>periodManager\<close>), the one that ends where \<open>currentPeriod\<close>
  starts.
\<close>

definition precedingPeriod :: "Period \<Rightarrow> Period" where
  "precedingPeriod p =
     (let s = start_of p; before = prevMonth (year s, month s)
      in \<lparr>id_of = periodKey before, start_of = boundary before (day s), end_of = s\<rparr>)"

subsection \<open>PeriodDetector\<close>

text \<open>
  Modelled from the spec: the result of \<open>checkForNewPeriod\<close> of section 4.2 (the missing
  \<open>periodManager\<close>): \<open>{ isNew: boolean, currentPeriod: Period }\<close>.
\<close>

record Detection =
  isNew :: bool
  currentPeriod :: Period

text \<open>
  Modelled from the spec: \<open>checkForNewPeriod(lastAcknowledged, now)\<close> of section 4.2, which
  is in the missing \<open>periodManager\<close>:
  ``\<open>isNew = (lastAcknowledged === null) || (lastAcknowledged !== currentPeriod.id)\<close>'',
  with the edge case that a marker ``lexically/numerically greater than
  \<open>currentPeriod.id\<close> is treated as not new''. Identifiers are strings and are compared
  as strings. The configured start day is an argument.
\<close>

definition checkForNewPeriod :: "string option \<Rightarrow> Instant \<Rightarrow> nat \<Rightarrow> Detection" where
  "checkForNewPeriod lastAcknowledged now startDay =
     (let cur = computePeriod now startDay
      in \<lparr>isNew = (case lastAcknowledged of
                     None \<Rightarrow> True
                   | Some m \<Rightarrow> if id_of cur < m then False else m \<noteq> id_of cur),
          currentPeriod = cur\<rparr>)"

subsection \<open>The store\<close>

text \<open>
  Modelled from the spec: the ``calendar-date'' of an expense of section 3, as the store
  behind the missing \<open>periodManager\<close> keeps it.
\<close>

record CalendarDate =
  cd_year :: int
  cd_month :: nat
  cd_day :: nat

text \<open>
  Modelled from the spec: \<open>Expense\<close> of section 3 as the store behind the missing
  \<open>periodManager\<close> keeps it, with a calendar date and a decimal amount.
\<close>

record StoredExpense =
  se_id :: string
  se_date :: CalendarDate
  se_category :: string
  se_amount :: rat
  se_note :: string

text \<open>
  Modelled from the spec: \<open>ArchiveRecord\<close> of section 3, which the missing
  \<open>periodManager\<close> writes: \<open>{ periodId, snapshotOf, archivedAt }\<close>.
\<close>

record ArchiveRecord =
  periodId :: string
  snapshotOf :: "StoredExpense list"
  archivedAt :: Instant

text \<open>
  Modelled from the spec: what the store behind the missing \<open>periodManager\<close> holds for
  one user: the active working set of expenses, the archive records in the order they
  were written, and the \<open>LastAcknowledgedMarker\<close> (``single row per user''; \<open>None\<close>
  before first use). The store maps a user identifier to this.
\<close>

record UserData =
  working :: "StoredExpense list"
  archives :: "ArchiveRecord list"
  marker :: "string option"

type_synonym Store = "string \<Rightarrow> UserData"

text \<open>
  Modelled from the spec: the period of an expense, which the missing \<open>periodManager\<close>
  decides: an expense ``belongs to the Period whose range contains \<open>date\<close>''; the
  identifier of that period under the configured start day.
\<close>

definition periodOfDate :: "nat \<Rightarrow> CalendarDate \<Rightarrow> string" where
  "periodOfDate startDay d =
     id_of (computePeriod \<lparr>year = cd_year d, month = cd_month d, day = cd_day d,
                           msOfDay = 0\<rparr> startDay)"

text \<open>
  Modelled from the spec: \<open>getExpenses(uid)\<close> of the PersistenceGateway contract of
  section 6, whose implementation is in the missing \<open>periodManager\<close>: the active working
  set of the user.
\<close>

definition gw_getExpenses :: "Store \<Rightarrow> string \<Rightarrow> StoredExpense list" where
  "gw_getExpenses st u = working (st u)"

text \<open>
  Modelled from the spec: \<open>getLastAcknowledgedPeriod(uid)\<close> of the contract of section 6
  (missing \<open>periodManager\<close>): the marker of the user, or none.
\<close>

definition gw_getLastAcknowledgedPeriod :: "Store \<Rightarrow> string \<Rightarrow> string option" where
  "gw_getLastAcknowledgedPeriod st u = marker (st u)"

text \<open>
  Modelled from the spec: \<open>setLastAcknowledgedPeriod(uid, periodId)\<close> of the contract of
  section 6 (missing \<open>periodManager\<close>): the marker of the user is overwritten.
\<close>

definition gw_setLastAcknowledgedPeriod :: "Store \<Rightarrow> string \<Rightarrow> string \<Rightarrow> Store" where
  "gw_setLastAcknowledgedPeriod st u p = st(u := (st u)\<lparr>marker := Some p\<rparr>)"

text \<open>
  Modelled from the spec: \<open>getArchiveRecord(uid, periodId)\<close> of the contract of section 6
  (missing \<open>periodManager\<close>): the first record written for the period, or none.
\<close>

definition gw_getArchiveRecord :: "Store \<Rightarrow> string \<Rightarrow> string \<Rightarrow> ArchiveRecord option" where
  "gw_getArchiveRecord st u p = find (\<lambda>r. periodId r = p) (archives (st u))"

text \<open>
  Modelled from the spec: \<open>writeArchiveRecord(uid, periodId, snapshot)\<close> of the contract
  of section 6 (missing \<open>periodManager\<close>): a record is added to those of the user, with
  the instant of the write as \<open>archivedAt\<close>.
\<close>

definition gw_writeArchiveRecord ::
  "Store \<Rightarrow> string \<Rightarrow> string \<Rightarrow> StoredExpense list \<Rightarrow> Instant \<Rightarrow> Store" where
  "gw_writeArchiveRecord st u p snapshot now =
     st(u := (st u)\<lparr>archives := archives (st u) @
                        [\<lparr>periodId = p, snapshotOf = snapshot, archivedAt = now\<rparr>]\<rparr>)"

text \<open>
  Modelled from the spec: \<open>removeExpenses(uid, periodId)\<close> of the contract of section 6
  (missing \<open>periodManager\<close>): the expenses of the period leave the working set.
\<close>

definition gw_removeExpenses :: "nat \<Rightarrow> Store \<Rightarrow> string \<Rightarrow> string \<Rightarrow> Store" where
  "gw_removeExpenses startDay st u p =
     st(u := (st u)\<lparr>working := filter (\<lambda>e. periodOfDate startDay (se_date e) \<noteq> p)
                                         (working (st u))\<rparr>)"

text \<open>
  Modelled from the spec: the calls of the gateway that the operations of the missing
  \<open>periodManager\<close> make. Each may fail (section 7: ``network/store failure on read or
  write''); which of them fail during one operation is an argument of the operation.
\<close>

datatype GatewayCall =
    GetMarkerCall | GetExpensesCall | GetArchiveCall
  | WriteArchiveCall | RemoveExpensesCall | SetMarkerCall

text \<open>
  Modelled from the spec: the error kind of section 7 that the operations of the missing
  \<open>periodManager\<close> report. (\<open>ArchiveConflict\<close> is ``treated as success, not error'' and
  \<open>InvalidMarkerState\<close> is ``never fatal'': neither is a result.)
\<close>

datatype EngineError = StoreUnavailable

text \<open>
  Modelled from the spec: the result of an operation of the missing \<open>periodManager\<close>:
  ``all PersistenceGateway failures propagate up to the caller ... as a failure result''.
\<close>

datatype Outcome = Succeeded | Failed EngineError


subsection \<open>ArchiveManager\<close>

text \<open>
  Modelled from the spec: step 5 of \<open>archiveCurrentPeriod\<close> and the whole of
  \<open>markPeriodAsChecked\<close>, both in the missing \<open>periodManager\<close>: ``unconditionally
  advance LastAcknowledgedMarker to \<open>currentPeriod.id\<close>''. A failure of the write is
  reported and leaves the store as it is. In the state machine below the operations run
  on rollover detection, where the stored marker is absent or behind the current period;
  what they do to a marker ahead of the clock is left open by section 9, and the order
  of the marker is proved for the state machine, where that case does not arise.
\<close>

definition advanceMarker ::
  "(GatewayCall \<Rightarrow> bool) \<Rightarrow> Period \<Rightarrow> string \<Rightarrow> Store \<Rightarrow> Outcome \<times> Store" where
  "advanceMarker fails cur u st =
     (if fails SetMarkerCall then (Failed StoreUnavailable, st)
      else (Succeeded, gw_setLastAcknowledgedPeriod st u (id_of cur)))"

text \<open>
  Modelled from the spec: step 1 of \<open>archiveCurrentPeriod\<close> (missing \<open>periodManager\<close>):
  the previous period is ``the period identified by the stale LastAcknowledgedMarker, or,
  if absent, inferred as the period immediately preceding \<open>currentPeriod\<close>''. A marker is
  stale when the detector reports a new period for it; without a stale marker (no marker,
  or one that is not behind the current period) the preceding period is taken.
\<close>

definition previousPeriodId :: "string option \<Rightarrow> Instant \<Rightarrow> nat \<Rightarrow> string" where
  "previousPeriodId mk now startDay =
     (let d = checkForNewPeriod mk now startDay
      in case mk of
           None \<Rightarrow> id_of (precedingPeriod (currentPeriod d))
         | Some m \<Rightarrow> if isNew d then m else id_of (precedingPeriod (currentPeriod d)))"

text \<open>
  Modelled from the spec: steps 3 and 4 of \<open>archiveCurrentPeriod\<close> (missing
  \<open>periodManager\<close>), with the failures of step 6. When a record exists
  for the previous period no snapshot is written; the removal is attempted in both cases
  (``removal is re-attempted'' on a retry). When the archive write fails nothing has
  changed; when the removal fails the record stays written.
\<close>

definition snapshotAndClear ::
  "(GatewayCall \<Rightarrow> bool) \<Rightarrow> nat \<Rightarrow> Instant \<Rightarrow> string \<Rightarrow> string \<Rightarrow> StoredExpense list
     \<Rightarrow> Store \<Rightarrow> Outcome \<times> Store" where
  "snapshotAndClear fails startDay now u prev snapshot st =
     (if fails GetArchiveCall then (Failed StoreUnavailable, st)
      else
        (case gw_getArchiveRecord st u prev of
           Some r \<Rightarrow>
             if fails RemoveExpensesCall then (Failed StoreUnavailable, st)
             else (Succeeded, gw_removeExpenses startDay st u prev)
         | None \<Rightarrow>
             if fails WriteArchiveCall then (Failed StoreUnavailable, st)
             else
               let st1 = gw_writeArchiveRecord st u prev snapshot now
               in if fails RemoveExpensesCall then (Failed StoreUnavailable, st1)
                  else (Succeeded, gw_removeExpenses startDay st1 u prev)))"

text \<open>
  Modelled from the spec: \<open>archiveCurrentPeriod(uid)\<close> of section 4.3, which is in the
  missing \<open>periodManager\<close>; steps 1 to 6 in order. The clock and the configured start day
  are arguments. A failed step ends the operation: the marker is advanced only when the
  steps before it succeeded.
\<close>

definition archiveCurrentPeriod ::
  "(GatewayCall \<Rightarrow> bool) \<Rightarrow> nat \<Rightarrow> Instant \<Rightarrow> string \<Rightarrow> Store \<Rightarrow> Outcome \<times> Store" where
  "archiveCurrentPeriod fails startDay now u st =
     (let cur = computePeriod now startDay in
      if fails GetMarkerCall then (Failed StoreUnavailable, st)
      else
        let prev = previousPeriodId (gw_getLastAcknowledgedPeriod st u) now startDay in
        if fails GetExpensesCall then (Failed StoreUnavailable, st)
        else
          let snapshot = filter (\<lambda>e. periodOfDate startDay (se_date e) = prev)
                                (gw_getExpenses st u)
          in (case snapshotAndClear fails startDay now u prev snapshot st of
                (Failed e, st1) \<Rightarrow> (Failed e, st1)
              | (Succeeded, st1) \<Rightarrow> advanceMarker fails cur u st1))"


subsection \<open>The state machine of the marker\<close>






section \<open>Example inputs\<close>

text \<open>
  A signed-in user, a form filled with the amount \<open>-5\<close>, and services whose write and
  reads resolve or reject as the two flags say. The translation function returns the key,
  as i18next does for a key without translation.
\<close>

definition exampleEnv :: Env where
  "exampleEnv = \<lparr>uid = Some ''u1'', currency = ''$''\<rparr>"

definition exampleState :: DailyLogState where
  "exampleState =
     \<lparr>expenses = [\<lparr>exp_id = ''e1'', exp_date = ''2024-06-10'', exp_category = ''Rent'',
                   exp_amount = Num 700, exp_note = []\<rparr>],
      categories = [\<lparr>cat_id = ''c1'', cat_name = ''Food'', plannedAmount = Num 300\<rparr>],
      selectedCategory = ''Food'', amount = ''-5'', note_st = '' lunch '',
      date = ''2024-06-10'', loading = False, error = None\<rparr>"

definition exampleServices :: "bool \<Rightarrow> bool \<Rightarrow> Services" where
  "exampleServices writeOk readOk =
     \<lparr>getExpenses = (\<lambda>u. if readOk then Resolved [] else Rejected),
      addExpense = (\<lambda>u e. if writeOk then Resolved () else Rejected),
      getCategories = (\<lambda>u. Resolved []),
      t_fn = (\<lambda>key params. key)\<rparr>"



definition exampleNow :: Instant where
  "exampleNow = \<lparr>year = 2024, month = 6, day = 3, msOfDay = 32400000\<rparr>"

text \<open>The configured start day of the examples: the first of the month.\<close>

definition exampleStartDay :: nat where
  "exampleStartDay = 1"




section \<open>Properties of the expense log\<close>

subsection \<open>The paths of handleAddExpense\<close>

lemma handleAddExpense_invalid:
  "selectedCategory st = [] \<or> amount st = [] \<Longrightarrow>
   handleAddExpense svc env st =
     (st, [ToastShown (errorToast svc ''dailyLog.select_category_and_amount'')])"
  by (simp add: handleAddExpense_def)

lemma handleAddExpense_no_user:
  "selectedCategory st \<noteq> [] \<Longrightarrow> amount st \<noteq> [] \<Longrightarrow> uidMissing env \<Longrightarrow>
   handleAddExpense svc env st = (st, [])"
  by (simp add: handleAddExpense_def)

lemma handleAddExpense_rejected:
  "selectedCategory st \<noteq> [] \<Longrightarrow> amount st \<noteq> [] \<Longrightarrow> \<not> uidMissing env \<Longrightarrow>
   addExpense svc (the (uid env)) (newExpenseOf st) = Rejected \<Longrightarrow>
   handleAddExpense svc env st =
     (st, [AddExpenseCalled (the (uid env)) (newExpenseOf st), AddExpenseSettled False,
           ToastShown (errorToast svc ''dailyLog.failed_to_add_expense'')])"
  by (simp add: handleAddExpense_def Let_def)

lemma handleAddExpense_reload_rejected:
  "selectedCategory st \<noteq> [] \<Longrightarrow> amount st \<noteq> [] \<Longrightarrow> \<not> uidMissing env \<Longrightarrow>
   addExpense svc (the (uid env)) (newExpenseOf st) = Resolved x \<Longrightarrow>
   getExpenses svc (the (uid env)) = Rejected \<Longrightarrow>
   handleAddExpense svc env st =
     (st\<lparr>expenses := withId ''pending'' (newExpenseOf st) # expenses st,
         selectedCategory := [], amount := [], note_st := []\<rparr>,
      [AddExpenseCalled (the (uid env)) (newExpenseOf st), AddExpenseSettled True,
       SetExpenses (withId ''pending'' (newExpenseOf st) # expenses st),
       SetSelectedCategory [], SetAmount [], SetNote [],
       ToastShown (loggedToast svc env st), GetExpensesCalled (the (uid env)),
       GetExpensesSettled False,
       ToastShown (errorToast svc ''dailyLog.failed_to_add_expense'')])"
  by (simp add: handleAddExpense_def Let_def)

lemma handleAddExpense_reloaded:
  "selectedCategory st \<noteq> [] \<Longrightarrow> amount st \<noteq> [] \<Longrightarrow> \<not> uidMissing env \<Longrightarrow>
   addExpense svc (the (uid env)) (newExpenseOf st) = Resolved x \<Longrightarrow>
   getExpenses svc (the (uid env)) = Resolved updated \<Longrightarrow>
   handleAddExpense svc env st =
     (st\<lparr>expenses := updated, selectedCategory := [], amount := [], note_st := []\<rparr>,
      [AddExpenseCalled (the (uid env)) (newExpenseOf st), AddExpenseSettled True,
       SetExpenses (withId ''pending'' (newExpenseOf st) # expenses st),
       SetSelectedCategory [], SetAmount [], SetNote [],
       ToastShown (loggedToast svc env st), GetExpensesCalled (the (uid env)),
       GetExpensesSettled True, SetExpenses updated])"
  by (simp add: handleAddExpense_def Let_def)

text \<open>The example form: the amount \<open>-5\<close> is parsed to the number \<open>-5\<close>.\<close>

lemma example_newExpense:
  "newExpenseOf exampleState =
     \<lparr>ne_date = ''2024-06-10'', ne_category = ''Food'', ne_amount = Num (- 5),
      ne_note = ''lunch''\<rparr>"
  by (simp add: exampleState_def newExpenseOf_def parseFloat_def isWhiteSpace_def
      isDigit_def digitsValue_def digitVal_def exponentPart_def scale10_def trim_def)

subsection \<open>The local list and the store write\<close>

text \<open>
  Claim C6, as the code has it. For a filled form and a signed-in user: when the write
  rejects, the state is left as it was and the only effects are the call, its rejection
  and the error toast; when the write resolves, the first change of the local list
  comes after the write has settled; and when the reload that follows rejects, the
  \<open>pending\<close> entry stays at the head of the list under the error toast.
\<close>

theorem handleAddExpense_updates_after_write:
  assumes "selectedCategory st \<noteq> []" and "amount st \<noteq> []" and "\<not> uidMissing env"
  shows "(addExpense svc (the (uid env)) (newExpenseOf st) = Rejected \<longrightarrow>
            handleAddExpense svc env st =
              (st, [AddExpenseCalled (the (uid env)) (newExpenseOf st),
                    AddExpenseSettled False,
                    ToastShown (errorToast svc ''dailyLog.failed_to_add_expense'')]))
       \<and> (addExpense svc (the (uid env)) (newExpenseOf st) \<noteq> Rejected \<longrightarrow>
            take 3 (snd (handleAddExpense svc env st)) =
              [AddExpenseCalled (the (uid env)) (newExpenseOf st), AddExpenseSettled True,
               SetExpenses (withId ''pending'' (newExpenseOf st) # expenses st)])
       \<and> (addExpense svc (the (uid env)) (newExpenseOf st) \<noteq> Rejected \<and>
          getExpenses svc (the (uid env)) = Rejected \<longrightarrow>
            expenses (fst (handleAddExpense svc env st)) =
              withId ''pending'' (newExpenseOf st) # expenses st
          \<and> last (snd (handleAddExpense svc env st)) =
              ToastShown (errorToast svc ''dailyLog.failed_to_add_expense''))"
proof (cases "addExpense svc (the (uid env)) (newExpenseOf st)")
  case Rejected
  then show ?thesis using assms by (simp add: handleAddExpense_rejected)
next
  case written: (Resolved x)
  show ?thesis
  proof (cases "getExpenses svc (the (uid env))")
    case Rejected
    show ?thesis
      using written Rejected
      by (simp add: handleAddExpense_reload_rejected [OF assms written Rejected])
  next
    case (Resolved updated)
    show ?thesis
      using written Resolved
      by (simp add: handleAddExpense_reloaded [OF assms written Resolved])
  qed
qed

theorem handleAddExpense_updates_after_write_witness:
  "selectedCategory exampleState \<noteq> [] \<and> amount exampleState \<noteq> [] \<and>
   \<not> uidMissing exampleEnv \<and>
   expenses (fst (handleAddExpense (exampleServices True False) exampleEnv exampleState)) =
     withId ''pending'' (newExpenseOf exampleState) # expenses exampleState \<and>
   last (snd (handleAddExpense (exampleServices True False) exampleEnv exampleState)) =
     ToastShown (errorToast (exampleServices True False) ''dailyLog.failed_to_add_expense'') \<and>
   handleAddExpense (exampleServices False True) exampleEnv exampleState =
     (exampleState,
      [AddExpenseCalled ''u1'' (newExpenseOf exampleState), AddExpenseSettled False,
       ToastShown (errorToast (exampleServices False True) ''dailyLog.failed_to_add_expense'')])"
proof -
  have h1: "selectedCategory exampleState \<noteq> []" by (simp add: exampleState_def)
  have h2: "amount exampleState \<noteq> []" by (simp add: exampleState_def)
  have h3: "\<not> uidMissing exampleEnv" by (simp add: exampleEnv_def uidMissing_def)
  have u: "the (uid exampleEnv) = ''u1''" by (simp add: exampleEnv_def)
  show ?thesis
    using h1 h2 h3
      handleAddExpense_updates_after_write [OF h1 h2 h3, of "exampleServices True False"]
      handleAddExpense_updates_after_write [OF h1 h2 h3, of "exampleServices False True"]
    by (simp add: u exampleServices_def)
qed

text \<open>
  The claim as it was stated fails: after a rejected write the list holds no optimistic
  entry (there is nothing to revert), and in a run whose write resolves the list is set
  after the write has settled, not before.
\<close>

theorem failed_write_leaves_no_optimistic_entry:
  "fst (handleAddExpense (exampleServices False True) exampleEnv exampleState) = exampleState
   \<and> withId ''pending'' (newExpenseOf exampleState) \<notin>
       set (expenses (fst (handleAddExpense (exampleServices False True) exampleEnv
                             exampleState)))
   \<and> snd (handleAddExpense (exampleServices False True) exampleEnv exampleState) =
       [AddExpenseCalled ''u1'' (newExpenseOf exampleState), AddExpenseSettled False,
        ToastShown \<lparr>title = ''dailyLog.failed_to_add_expense'', description = None,
                    variant = Some ''destructive''\<rparr>]
   \<and> precedes (AddExpenseSettled True)
       (SetExpenses (withId ''pending'' (newExpenseOf exampleState) # expenses exampleState))
       (snd (handleAddExpense (exampleServices True True) exampleEnv exampleState))
   \<and> \<not> precedes
       (SetExpenses (withId ''pending'' (newExpenseOf exampleState) # expenses exampleState))
       (AddExpenseSettled True)
       (snd (handleAddExpense (exampleServices True True) exampleEnv exampleState))"
  by (simp add: handleAddExpense_def Let_def uidMissing_def exampleEnv_def
      exampleServices_def errorToast_def precedes_def example_newExpense withId_def)
     (simp add: exampleState_def)

subsection \<open>What the form checks\<close>

text \<open>
  Claim C7, as the code has it. The handler turns away, with a toast and without a
  write, exactly an empty category or an empty amount string. Any other amount string is
  parsed with \<open>parseFloat\<close> and passed to \<open>addExpense\<close>, whatever its sign and
  whether or not it is a number.
\<close>

theorem handleAddExpense_checks_presence_only:
  "(selectedCategory st = [] \<or> amount st = [] \<longrightarrow>
      handleAddExpense svc env st =
        (st, [ToastShown (errorToast svc ''dailyLog.select_category_and_amount'')]))
   \<and> (selectedCategory st \<noteq> [] \<and> amount st \<noteq> [] \<and> \<not> uidMissing env \<longrightarrow>
        hd (snd (handleAddExpense svc env st)) =
          AddExpenseCalled (the (uid env))
            \<lparr>ne_date = date st, ne_category = selectedCategory st,
             ne_amount = parseFloat (amount st), ne_note = trim (note_st st)\<rparr>)"
proof (intro conjI impI)
  assume "selectedCategory st = [] \<or> amount st = []"
  then show "handleAddExpense svc env st =
        (st, [ToastShown (errorToast svc ''dailyLog.select_category_and_amount'')])"
    by (rule handleAddExpense_invalid)
next
  assume a: "selectedCategory st \<noteq> [] \<and> amount st \<noteq> [] \<and> \<not> uidMissing env"
  show "hd (snd (handleAddExpense svc env st)) =
          AddExpenseCalled (the (uid env))
            \<lparr>ne_date = date st, ne_category = selectedCategory st,
             ne_amount = parseFloat (amount st), ne_note = trim (note_st st)\<rparr>"
    using a
    by (simp add: handleAddExpense_def Let_def newExpenseOf_def split: Promise.splits)
qed

theorem handleAddExpense_checks_presence_only_witness:
  "selectedCategory exampleState \<noteq> [] \<and> amount exampleState \<noteq> [] \<and>
   \<not> uidMissing exampleEnv \<and>
   hd (snd (handleAddExpense (exampleServices True True) exampleEnv exampleState)) =
     AddExpenseCalled ''u1''
       \<lparr>ne_date = ''2024-06-10'', ne_category = ''Food'', ne_amount = Num (- 5),
        ne_note = ''lunch''\<rparr> \<and>
   handleAddExpense (exampleServices True True) exampleEnv (exampleState\<lparr>amount := []\<rparr>) =
     (exampleState\<lparr>amount := []\<rparr>,
      [ToastShown (errorToast (exampleServices True True)
         ''dailyLog.select_category_and_amount'')])"
proof -
  have h: "selectedCategory exampleState \<noteq> [] \<and> amount exampleState \<noteq> [] \<and>
           \<not> uidMissing exampleEnv"
    by (simp add: exampleState_def exampleEnv_def uidMissing_def)
  have u: "the (uid exampleEnv) = ''u1''" by (simp add: exampleEnv_def)
  have n: "\<lparr>ne_date = date exampleState, ne_category = selectedCategory exampleState,
            ne_amount = parseFloat (amount exampleState),
            ne_note = trim (note_st exampleState)\<rparr> =
           \<lparr>ne_date = ''2024-06-10'', ne_category = ''Food'', ne_amount = Num (- 5),
            ne_note = ''lunch''\<rparr>"
    using example_newExpense by (simp add: newExpenseOf_def)
  show ?thesis
    using h
      handleAddExpense_checks_presence_only
        [of exampleState "exampleServices True True" exampleEnv]
      handleAddExpense_checks_presence_only
        [of "exampleState\<lparr>amount := []\<rparr>" "exampleServices True True" exampleEnv]
    by (simp add: u n)
qed

text \<open>
  The claim as it was stated fails: with the amount \<open>-5\<close> typed into the form nothing is
  turned away; the expense with the negative amount goes to \<open>addExpense\<close> and into
  the local list, and the success toast is shown.
\<close>

theorem negative_amount_is_written:
  "snd (handleAddExpense (exampleServices True True) exampleEnv exampleState) =
     [AddExpenseCalled ''u1''
        \<lparr>ne_date = ''2024-06-10'', ne_category = ''Food'', ne_amount = Num (- 5),
         ne_note = ''lunch''\<rparr>,
      AddExpenseSettled True,
      SetExpenses (\<lparr>exp_id = ''pending'', exp_date = ''2024-06-10'',
                    exp_category = ''Food'', exp_amount = Num (- 5),
                    exp_note = ''lunch''\<rparr> # expenses exampleState),
      SetSelectedCategory [], SetAmount [], SetNote [],
      ToastShown (loggedToast (exampleServices True True) exampleEnv exampleState),
      GetExpensesCalled ''u1'', GetExpensesSettled True, SetExpenses []]
   \<and> \<not> jsGe0 (Num (- 5))
   \<and> amount exampleState = ''-5''"
  by (simp add: handleAddExpense_def Let_def uidMissing_def exampleEnv_def
      exampleServices_def example_newExpense withId_def)
     (simp add: exampleState_def)

subsection \<open>The form fields\<close>

text \<open>
  Claim C9. For a filled form and a signed-in user: when the write resolves, the
  category, the amount and the note are cleared and the selected date is kept (whether
  or not the reload then resolves); when the write rejects, the whole state, the four
  form fields and the expense list among it, is left as it was, and besides the call
  and its rejection the only effect is the error toast.
\<close>

theorem handleAddExpense_form_fields:
  assumes "selectedCategory st \<noteq> []" and "amount st \<noteq> []" and "\<not> uidMissing env"
  shows "(addExpense svc (the (uid env)) (newExpenseOf st) \<noteq> Rejected \<longrightarrow>
            selectedCategory (fst (handleAddExpense svc env st)) = [] \<and>
            amount (fst (handleAddExpense svc env st)) = [] \<and>
            note_st (fst (handleAddExpense svc env st)) = [] \<and>
            date (fst (handleAddExpense svc env st)) = date st)
       \<and> (addExpense svc (the (uid env)) (newExpenseOf st) = Rejected \<longrightarrow>
            fst (handleAddExpense svc env st) = st \<and>
            snd (handleAddExpense svc env st) =
              [AddExpenseCalled (the (uid env)) (newExpenseOf st), AddExpenseSettled False,
               ToastShown (errorToast svc ''dailyLog.failed_to_add_expense'')])"
  using assms
  by (simp add: handleAddExpense_def Let_def split: Promise.splits)

theorem handleAddExpense_form_fields_witness:
  "selectedCategory exampleState \<noteq> [] \<and> amount exampleState \<noteq> [] \<and>
   \<not> uidMissing exampleEnv \<and>
   selectedCategory (fst (handleAddExpense (exampleServices True True) exampleEnv
      exampleState)) = [] \<and>
   amount (fst (handleAddExpense (exampleServices True True) exampleEnv exampleState)) = [] \<and>
   note_st (fst (handleAddExpense (exampleServices True True) exampleEnv exampleState)) = [] \<and>
   date (fst (handleAddExpense (exampleServices True True) exampleEnv exampleState)) =
     ''2024-06-10'' \<and>
   fst (handleAddExpense (exampleServices False True) exampleEnv exampleState) = exampleState"
proof -
  have h1: "selectedCategory exampleState \<noteq> []" by (simp add: exampleState_def)
  have h2: "amount exampleState \<noteq> []" by (simp add: exampleState_def)
  have h3: "\<not> uidMissing exampleEnv" by (simp add: exampleEnv_def uidMissing_def)
  have d: "date exampleState = ''2024-06-10''" by (simp add: exampleState_def)
  show ?thesis
    using h1 h2 h3
      handleAddExpense_form_fields [OF h1 h2 h3, of "exampleServices True True"]
      handleAddExpense_form_fields [OF h1 h2 h3, of "exampleServices False True"]
    by (simp add: exampleServices_def d)
qed

subsection \<open>No user\<close>

text \<open>
  Claim C10. Without a user identifier, a click with a selected category and a
  non-empty amount changes nothing and has no effect at all: no call of the store, no
  setter, no toast.
\<close>

theorem handleAddExpense_without_user:
  assumes "uid env = None" and "selectedCategory st \<noteq> []" and "amount st \<noteq> []"
  shows "handleAddExpense svc env st = (st, [])"
  using assms by (simp add: handleAddExpense_def uidMissing_def)

theorem handleAddExpense_without_user_witness:
  "uid (exampleEnv\<lparr>uid := None\<rparr>) = None \<and> selectedCategory exampleState \<noteq> [] \<and>
   amount exampleState \<noteq> [] \<and>
   handleAddExpense (exampleServices True True) (exampleEnv\<lparr>uid := None\<rparr>) exampleState =
     (exampleState, [])"
proof -
  have h1: "uid (exampleEnv\<lparr>uid := None\<rparr>) = None" by simp
  have h2: "selectedCategory exampleState \<noteq> []" by (simp add: exampleState_def)
  have h3: "amount exampleState \<noteq> []" by (simp add: exampleState_def)
  show ?thesis
    using h1 h2 h3 handleAddExpense_without_user [OF h1 h2 h3, of "exampleServices True True"]
    by simp
qed

subsection \<open>A failed load\<close>

text \<open>
  Claim C8. When one of the two reads of the load rejects, the component renders the
  error line with the translated message and nothing else, whatever the state held
  before (an earlier list included). The message is the translation of
  \<open>dailyLog.failed_to_load_data\<close>, which is taken to be a non-empty text.
\<close>

theorem failed_load_renders_error:
  assumes "\<not> uidMissing env"
      and "getExpenses svc (the (uid env)) = Rejected \<or>
           getCategories svc (the (uid env)) = Rejected"
      and "t_fn svc ''dailyLog.failed_to_load_data'' [] \<noteq> []"
  shows "render svc (loadData svc env st) =
           ErrorView (t_fn svc ''dailyLog.failed_to_load_data'' [])"
  using assms
  by (auto simp add: loadData_def render_def Let_def split: Promise.splits)

theorem failed_load_renders_error_witness:
  "\<not> uidMissing exampleEnv \<and>
   getExpenses (exampleServices True False) (the (uid exampleEnv)) = Rejected \<and>
   t_fn (exampleServices True False) ''dailyLog.failed_to_load_data'' [] \<noteq> [] \<and>
   render (exampleServices True False)
     (loadData (exampleServices True False) exampleEnv exampleState) =
     ErrorView ''dailyLog.failed_to_load_data'' \<and>
   render (exampleServices True False) exampleState =
     LogView [''Food''] (expenses exampleState) (Num 700)"
proof -
  have h1: "\<not> uidMissing exampleEnv" by (simp add: exampleEnv_def uidMissing_def)
  have h2: "getExpenses (exampleServices True False) (the (uid exampleEnv)) = Rejected \<or>
            getCategories (exampleServices True False) (the (uid exampleEnv)) = Rejected"
    by (simp add: exampleServices_def)
  have h3: "t_fn (exampleServices True False) ''dailyLog.failed_to_load_data'' [] \<noteq> []"
    by (simp add: exampleServices_def)
  have r: "render (exampleServices True False) exampleState =
             LogView [''Food''] (expenses exampleState) (Num 700)"
    by (simp add: render_def exampleState_def todaysExpenses_def todaysTotal_def)
  show ?thesis
    using h1 h3 r failed_load_renders_error [OF h1 h2 h3, of exampleState]
    by (simp add: exampleServices_def)
qed


text \<open>Before the first load has settled the component shows the loading line.\<close>

lemma initial_render:
  "render svc (initialState today) = LoadingView (t_fn svc ''loading'' [])"
  by (simp add: render_def initialState_def)


section \<open>Properties of the rollover prompt\<close>

text \<open>
  With operations that complete within the call, \<open>onClose\<close> comes after the
  completion.
\<close>

lemma prompt_closes_after_synchronous_completion:
  "click (handleArchiveAndStart Synchronous) =
     [Started ArchiveCurrentPeriod, Completed ArchiveCurrentPeriod,
      PromptToast newPeriodToast, OnClose]
   \<and> click (handleContinue Synchronous) =
     [Started MarkPeriodAsChecked, Completed MarkPeriodAsChecked, OnClose]"
  by (simp add: click_def handleArchiveAndStart_def handleContinue_def callOperation_def)

text \<open>
  Claim C5, evaluated on the code. When the operations return promises, a click on
  either button calls \<open>onClose\<close> before the operation it started has completed: the
  handlers do not await the call.
\<close>

theorem prompt_closes_before_completion:
  "click (handleArchiveAndStart Asynchronous) =
     [Started ArchiveCurrentPeriod, PromptToast newPeriodToast, OnClose,
      Completed ArchiveCurrentPeriod]
   \<and> click (handleContinue Asynchronous) =
     [Started MarkPeriodAsChecked, OnClose, Completed MarkPeriodAsChecked]
   \<and> precedes OnClose (Completed ArchiveCurrentPeriod)
       (click (handleArchiveAndStart Asynchronous))
   \<and> precedes OnClose (Completed MarkPeriodAsChecked) (click (handleContinue Asynchronous))
   \<and> \<not> precedes (Completed ArchiveCurrentPeriod) OnClose
       (click (handleArchiveAndStart Asynchronous))
   \<and> \<not> precedes (Completed MarkPeriodAsChecked) OnClose
       (click (handleContinue Asynchronous))"
  by (simp add: click_def handleArchiveAndStart_def handleContinue_def callOperation_def
      precedes_def)


section \<open>Properties of the period engine\<close>

subsection \<open>Period identifiers\<close>

lemma digit_chars:
  "char_of (48::nat) = CHR ''0''" "char_of (49::nat) = CHR ''1''"
  "char_of (50::nat) = CHR ''2''" "char_of (51::nat) = CHR ''3''"
  "char_of (52::nat) = CHR ''4''" "char_of (53::nat) = CHR ''5''"
  "char_of (54::nat) = CHR ''6''" "char_of (55::nat) = CHR ''7''"
  "char_of (56::nat) = CHR ''8''" "char_of (57::nat) = CHR ''9''"
  by code_simp+

lemmas period_eval = computePeriod_def Let_def boundary_def nextMonth_def prevMonth_def
  periodKey_def showNat.simps digit_chars

lemma digit_less:
  "a < 10 \<Longrightarrow> b < 10 \<Longrightarrow> (char_of (48 + a :: nat) < char_of (48 + b)) = (a < b)"
  by (simp add: less_char_def)

lemma digit_eq:
  assumes "a < 10" and "b < 10"
  shows "(char_of (48 + a :: nat) = char_of (48 + b)) = (a = b)"
proof -
  have "(of_char (char_of (48 + a)) :: nat) = 48 + a" using assms(1) by simp
  moreover have "(of_char (char_of (48 + b)) :: nat) = 48 + b" using assms(2) by simp
  ultimately show ?thesis by (metis add_left_cancel)
qed

lemma showNat_one: "n < 10 \<Longrightarrow> showNat n = [char_of (48 + n)]"
  by (simp add: showNat.simps [of n])

lemma showNat_step:
  "10 \<le> n \<Longrightarrow> showNat n = showNat (n div 10) @ [char_of (48 + n mod 10)]"
  by (simp add: showNat.simps [of n])

lemma showNat_two:
  assumes "10 \<le> n" and "n < 100"
  shows "showNat n = [char_of (48 + n div 10), char_of (48 + n mod 10)]"
proof -
  have "n div 10 < 10" using assms by simp
  then show ?thesis using assms by (simp add: showNat_step showNat_one)
qed

lemma showNat_four:
  assumes "1000 \<le> n" and "n < 10000"
  shows "showNat n = [char_of (48 + n div 1000), char_of (48 + n div 100 mod 10),
                      char_of (48 + n div 10 mod 10), char_of (48 + n mod 10)]"
proof -
  have s1: "showNat n = showNat (n div 10) @ [char_of (48 + n mod 10)]"
    using assms by (simp add: showNat_step)
  have "10 \<le> n div 10" using assms by simp
  then have s2: "showNat (n div 10) = showNat (n div 100) @ [char_of (48 + n div 10 mod 10)]"
    by (simp add: showNat_step div_mult2_eq [symmetric])
  have "10 \<le> n div 100" and "n div 100 < 100" using assms by simp_all
  then have s3: "showNat (n div 100) =
                   [char_of (48 + n div 1000), char_of (48 + n div 100 mod 10)]"
    by (simp add: showNat_two div_mult2_eq [symmetric])
  show ?thesis by (simp add: s1 s2 s3)
qed

lemma four_digit_sum:
  "(n::nat) = 1000 * (n div 1000) + 100 * (n div 100 mod 10) + 10 * (n div 10 mod 10) + n mod 10"
proof -
  have "n = 10 * (n div 10) + n mod 10" by simp
  also have "n div 10 = 10 * (n div 10 div 10) + n div 10 mod 10" by simp
  also have "n div 10 div 10 = 10 * (n div 10 div 10 div 10) + n div 10 div 10 mod 10" by simp
  finally show ?thesis by (simp add: div_mult2_eq [symmetric])
qed

lemma digits_lex:
  fixes a3 a2 a1 a0 b3 b2 b1 b0 :: nat
  assumes "a2 < 10" "a1 < 10" "a0 < 10" "b2 < 10" "b1 < 10" "b0 < 10"
      and "1000 * a3 + 100 * a2 + 10 * a1 + a0 < 1000 * b3 + 100 * b2 + 10 * b1 + b0"
  shows "a3 < b3 \<or> (a3 = b3 \<and> (a2 < b2 \<or> (a2 = b2 \<and> (a1 < b1 \<or> (a1 = b1 \<and> a0 < b0)))))"
  using assms by linarith

lemma two_digits_lex:
  fixes a1 a0 b1 b0 :: nat
  assumes "a0 < 10" "b0 < 10" and "10 * a1 + a0 < 10 * b1 + b0"
  shows "a1 < b1 \<or> (a1 = b1 \<and> a0 < b0)"
  using assms by linarith

text \<open>The identifier of a four-digit year and a month, digit by digit.\<close>

lemma periodKey_digits:
  assumes "1000 \<le> y" and "y \<le> 9999" and "m < 100"
  shows "periodKey (y, m) =
           [char_of (48 + nat y div 1000), char_of (48 + nat y div 100 mod 10),
            char_of (48 + nat y div 10 mod 10), char_of (48 + nat y mod 10), CHR ''-'',
            char_of (48 + m div 10), char_of (48 + m mod 10)]"
proof -
  have y: "1000 \<le> nat y" "nat y < 10000" using assms by simp_all
  have m: "(if m < 10 then ''0'' @ showNat m else showNat m) =
             [char_of (48 + m div 10), char_of (48 + m mod 10)]"
    using assms(3) by (simp add: showNat_one showNat_two digit_chars(1))
  have k: "periodKey (y, m) =
             showNat (nat y) @ ''-'' @ (if m < 10 then ''0'' @ showNat m else showNat m)"
    using assms(1) by (simp add: periodKey_def)
  show ?thesis
    by (simp only: k m showNat_four [OF y]) simp
qed

text \<open>
  For years of four digits the string order of identifiers is the order of the months
  they name.
\<close>

lemma periodKey_less:
  assumes "1000 \<le> y1" and "y1 \<le> 9999" and "1000 \<le> y2" and "y2 \<le> 9999"
      and "m1 < 100" and "m2 < 100"
      and "y1 < y2 \<or> (y1 = y2 \<and> m1 < m2)"
  shows "periodKey (y1, m1) < periodKey (y2, m2)"
proof -
  have d: "nat y1 div 1000 < 10" "nat y1 div 100 mod 10 < 10" "nat y1 div 10 mod 10 < 10"
          "nat y1 mod 10 < 10" "nat y2 div 1000 < 10" "nat y2 div 100 mod 10 < 10"
          "nat y2 div 10 mod 10 < 10" "nat y2 mod 10 < 10"
          "m1 div 10 < 10" "m1 mod 10 < 10" "m2 div 10 < 10" "m2 mod 10 < 10"
    using assms by simp_all
  from assms(7) show ?thesis
  proof
    assume "y1 < y2"
    then have "nat y1 < nat y2" using assms(1) by simp
    then have "1000 * (nat y1 div 1000) + 100 * (nat y1 div 100 mod 10) +
                 10 * (nat y1 div 10 mod 10) + nat y1 mod 10
               < 1000 * (nat y2 div 1000) + 100 * (nat y2 div 100 mod 10) +
                 10 * (nat y2 div 10 mod 10) + nat y2 mod 10"
      using four_digit_sum [of "nat y1"] four_digit_sum [of "nat y2"] by simp
    from digits_lex [OF d(2,3,4) d(6,7,8) this]
    show ?thesis
      using d by (auto simp add: periodKey_digits assms digit_less digit_eq)
  next
    assume e: "y1 = y2 \<and> m1 < m2"
    then have "10 * (m1 div 10) + m1 mod 10 < 10 * (m2 div 10) + m2 mod 10" by simp
    from two_digits_lex [OF d(10) d(12) this]
    show ?thesis
      using d e by (auto simp add: periodKey_digits assms digit_less digit_eq)
  qed
qed

subsection \<open>PeriodCalculator\<close>

text \<open>
  Claim C2. For a start day from 1 to 28: when the day of \<open>now\<close> is at least the start
  day, the period runs from the start day of this month to the start day of the next
  month; otherwise from the start day of the previous month to the start day of this
  month; both boundaries lie on the start day at local midnight. For the start day 15
  and any instant of 2024-06-10 the period is 2024-05-15 to 2024-06-15.
\<close>

theorem computePeriod_boundaries:
  assumes "1 \<le> startDay" and "startDay \<le> 28"
  shows "(startDay \<le> day now \<longrightarrow>
            start_of (computePeriod now startDay) = boundary (year now, month now) startDay \<and>
            end_of (computePeriod now startDay) =
              boundary (nextMonth (year now, month now)) startDay)
       \<and> (day now < startDay \<longrightarrow>
            start_of (computePeriod now startDay) =
              boundary (prevMonth (year now, month now)) startDay \<and>
            end_of (computePeriod now startDay) = boundary (year now, month now) startDay)
       \<and> day (start_of (computePeriod now startDay)) = startDay
       \<and> msOfDay (start_of (computePeriod now startDay)) = 0
       \<and> day (end_of (computePeriod now startDay)) = startDay
       \<and> msOfDay (end_of (computePeriod now startDay)) = 0
       \<and> computePeriod \<lparr>year = 2024, month = 6, day = 10, msOfDay = ms\<rparr> 15 =
           \<lparr>id_of = ''2024-05'',
            start_of = \<lparr>year = 2024, month = 5, day = 15, msOfDay = 0\<rparr>,
            end_of = \<lparr>year = 2024, month = 6, day = 15, msOfDay = 0\<rparr>\<rparr>"
  using assms
  by (simp add: computePeriod_def Let_def boundary_def min_def prevMonth_def periodKey_def
      showNat.simps digit_chars)

theorem computePeriod_boundaries_witness:
  "(1::nat) \<le> 15 \<and> (15::nat) \<le> 28 \<and>
   start_of (computePeriod \<lparr>year = 2024, month = 6, day = 10, msOfDay = 0\<rparr> 15) =
     \<lparr>year = 2024, month = 5, day = 15, msOfDay = 0\<rparr> \<and>
   end_of (computePeriod \<lparr>year = 2024, month = 6, day = 10, msOfDay = 0\<rparr> 15) =
     \<lparr>year = 2024, month = 6, day = 15, msOfDay = 0\<rparr> \<and>
   start_of (computePeriod \<lparr>year = 2024, month = 12, day = 20, msOfDay = 0\<rparr> 15) =
     \<lparr>year = 2024, month = 12, day = 15, msOfDay = 0\<rparr> \<and>
   end_of (computePeriod \<lparr>year = 2024, month = 12, day = 20, msOfDay = 0\<rparr> 15) =
     \<lparr>year = 2025, month = 1, day = 15, msOfDay = 0\<rparr>"
proof -
  have h1: "(1::nat) \<le> 15" by simp
  have h2: "(15::nat) \<le> 28" by simp
  show ?thesis
    using computePeriod_boundaries
            [OF h1 h2, of "\<lparr>year = 2024, month = 6, day = 10, msOfDay = 0\<rparr>" 0]
          computePeriod_boundaries
            [OF h1 h2, of "\<lparr>year = 2024, month = 12, day = 20, msOfDay = 0\<rparr>" 0]
    by (simp add: boundary_def nextMonth_def prevMonth_def)
qed

text \<open>A period starts before it ends and holds the instant it was computed from.\<close>

lemma computePeriod_start_before_end:
  assumes "1 \<le> month now" and "month now \<le> 12"
  shows "instantLess (start_of (computePeriod now sd)) (end_of (computePeriod now sd))"
  using assms
  by (auto simp add: computePeriod_def Let_def boundary_def instantLess_def nextMonth_def
      prevMonth_def)

lemma computePeriod_contains:
  assumes "1 \<le> month now" and "month now \<le> 12"
  shows "\<not> instantLess now (start_of (computePeriod now sd))"
    and "instantLess now (end_of (computePeriod now sd))"
  using assms
  by (auto simp add: computePeriod_def Let_def boundary_def instantLess_def nextMonth_def
      prevMonth_def)

lemma computePeriod_id:
  "id_of (computePeriod now sd) =
     periodKey (if min sd 28 \<le> day now then (year now, month now)
                else prevMonth (year now, month now))"
  by (simp add: computePeriod_def Let_def)

text \<open>
  With years of four digits, a later instant never has a smaller period identifier.
\<close>

lemma computePeriod_id_mono:
  assumes "\<not> instantLess now2 now1"
      and "1001 \<le> year now1" and "year now2 \<le> 9999"
      and "1 \<le> month now1" and "month now1 \<le> 12"
      and "1 \<le> month now2" and "month now2 \<le> 12"
  shows "id_of (computePeriod now1 sd) \<le> id_of (computePeriod now2 sd)"
proof -
  let ?a = "if min sd 28 \<le> day now1 then (year now1, month now1)
            else prevMonth (year now1, month now1)"
  let ?b = "if min sd 28 \<le> day now2 then (year now2, month now2)
            else prevMonth (year now2, month now2)"
  have ord: "fst ?a < fst ?b \<or> (fst ?a = fst ?b \<and> snd ?a < snd ?b) \<or> ?a = ?b"
    using assms by (auto simp add: instantLess_def prevMonth_def)
  have ra: "1000 \<le> fst ?a" "fst ?a \<le> 9999" "snd ?a < 100"
    and rb: "1000 \<le> fst ?b" "fst ?b \<le> 9999" "snd ?b < 100"
    using assms by (auto simp add: instantLess_def prevMonth_def)
  have "periodKey ?a \<le> periodKey ?b"
  proof (cases "?a = ?b")
    case True
    then show ?thesis by simp
  next
    case False
    with ord have "fst ?a < fst ?b \<or> (fst ?a = fst ?b \<and> snd ?a < snd ?b)" by blast
    from periodKey_less [OF ra(1,2) rb(1,2) ra(3) rb(3) this]
    show ?thesis by simp
  qed
  then show ?thesis by (simp only: computePeriod_id)
qed

text \<open>The period of the example instant under the example start day.\<close>

lemma example_period:
  "computePeriod exampleNow exampleStartDay =
     \<lparr>id_of = ''2024-06'',
      start_of = \<lparr>year = 2024, month = 6, day = 1, msOfDay = 0\<rparr>,
      end_of = \<lparr>year = 2024, month = 7, day = 1, msOfDay = 0\<rparr>\<rparr>"
  by (simp add: exampleNow_def exampleStartDay_def period_eval)


subsection \<open>PeriodDetector\<close>

text \<open>
  Claim C3. For every marker and instant, \<open>isNew\<close> holds exactly when the marker is
  absent or differs from the identifier of the current period, except that a marker
  greater than that identifier gives \<open>isNew = false\<close>; the period returned is the
  current one.
\<close>

theorem checkForNewPeriod_isNew:
  "isNew (checkForNewPeriod la now sd) =
     ((la = None \<or> la \<noteq> Some (id_of (computePeriod now sd))) \<and>
      \<not> (\<exists>m. la = Some m \<and> id_of (computePeriod now sd) < m))
   \<and> currentPeriod (checkForNewPeriod la now sd) = computePeriod now sd"
  by (auto simp add: checkForNewPeriod_def Let_def split: option.splits)

theorem checkForNewPeriod_isNew_witness:
  "isNew (checkForNewPeriod (Some ''2024-05'') exampleNow exampleStartDay) \<and>
   id_of (currentPeriod (checkForNewPeriod (Some ''2024-05'') exampleNow exampleStartDay)) =
     ''2024-06'' \<and>
   \<not> isNew (checkForNewPeriod (Some ''2024-06'') exampleNow exampleStartDay) \<and>
   \<not> isNew (checkForNewPeriod (Some ''2024-07'') exampleNow exampleStartDay) \<and>
   isNew (checkForNewPeriod None exampleNow exampleStartDay)"
  using checkForNewPeriod_isNew [of "Some ''2024-05''" exampleNow exampleStartDay]
    checkForNewPeriod_isNew [of "Some ''2024-06''" exampleNow exampleStartDay]
    checkForNewPeriod_isNew [of "Some ''2024-07''" exampleNow exampleStartDay]
    checkForNewPeriod_isNew [of None exampleNow exampleStartDay]
  by (simp add: example_period)


subsection \<open>The marker\<close>

lemma advanceMarker_result:
  "advanceMarker fails cur u st =
     (if fails SetMarkerCall then (Failed StoreUnavailable, st)
      else (Succeeded, st(u := (st u)\<lparr>marker := Some (id_of cur)\<rparr>)))"
  by (simp add: advanceMarker_def gw_setLastAcknowledgedPeriod_def)

lemma advanceMarker_archives:
  "archives (snd (advanceMarker fails cur u st) v) = archives (st v)"
  by (simp add: advanceMarker_result)







subsection \<open>Archive records\<close>






text \<open>
  No run of \<open>archiveCurrentPeriod\<close>, failed or not, gives a period a second record.
\<close>

lemma snapshotAndClear_keys:
  assumes "distinct (map periodId (archives (st u)))"
  shows "distinct (map periodId (archives (snd (snapshotAndClear fails sd now u prev snap st) u)))"
  using assms
  by (auto simp add: snapshotAndClear_def gw_getArchiveRecord_def gw_writeArchiveRecord_def
      gw_removeExpenses_def Let_def find_None_iff split: option.splits)

lemma archiveCurrentPeriod_keys:
  assumes "distinct (map periodId (archives (st u)))"
  shows "distinct (map periodId (archives (snd (archiveCurrentPeriod fails sd now u st) u)))"
proof -
  let ?prev = "previousPeriodId (gw_getLastAcknowledgedPeriod st u) now sd"
  let ?snap = "filter (\<lambda>e. periodOfDate sd (se_date e) = ?prev) (gw_getExpenses st u)"
  obtain r st1 where sc: "snapshotAndClear fails sd now u ?prev ?snap st = (r, st1)"
    by (cases "snapshotAndClear fails sd now u ?prev ?snap st")
  have d: "distinct (map periodId (archives (st1 u)))"
    using snapshotAndClear_keys [where st = st and u = u, OF assms, of fails sd now ?prev ?snap]
      sc by simp
  show ?thesis
    using sc d assms
    by (cases r) (simp_all add: archiveCurrentPeriod_def Let_def advanceMarker_archives)
qed


subsection \<open>Archiving twice\<close>











subsection \<open>The marker never goes back\<close>










end
